theory Spec2Isabelle
  imports Main "HOL-Library.Word"
begin

unbundle bit_operations_syntax

section \<open>Machine types\<close>

text \<open>
  The package is cgo code against linux-gpib on a 64-bit Linux target: Go's \<open>int\<close> and
  \<open>uintptr\<close> and C's \<open>long\<close> are 64 bits wide, C's \<open>int\<close> is 32 bits wide.
  Conversions between them are written out: \<open>scast\<close> sign-extends, \<open>ucast\<close> to a
  narrower type truncates.
\<close>

type_synonym byte = "8 word"
type_synonym c_int = "32 word"
type_synonym c_long = "64 word"
type_synonym go_int = "64 word"
type_synonym uintptr = "64 word"

section \<open>Contexts and options\<close>

text \<open>
  A \<open>context.Context\<close> is identified by how it was made: the background context, a
  context handed in by the caller, or the child made by \<open>context.WithCancel\<close> (numbered,
  so that two children of one parent differ). A \<open>context.CancelFunc\<close> is the closure
  that cancels one such child.
\<close>

datatype Context = Background | UserContext nat | CancelCtx nat Context

datatype CancelFunc = CancelFunc Context

record Options =
  BaseContext :: "Context option"

text \<open>\<open>func (opts *Options) context()\<close>; a nil pointer and a nil interface are \<open>None\<close>.\<close>

definition Options_context :: "Options option \<Rightarrow> Context" where
  "Options_context opts =
     (case opts of
        None \<Rightarrow> Background
      | Some os \<Rightarrow> (case BaseContext os of None \<Rightarrow> Background | Some c \<Rightarrow> c))"

section \<open>The device and the native library\<close>

record Device =
  ctx :: Context
  cancel :: CancelFunc
  closed :: bool
  descriptor :: c_int

text \<open>
  The two kinds of error value the package builds: \<open>syscall.Errno(n)\<close> and
  \<open>fmt.Errorf(msg)\<close>. A Go \<open>error\<close> that may be nil is an \<open>error option\<close>.
\<close>

datatype error = Errno uintptr | Errorf string

text \<open>
  The ways a call of the package ends without returning: the panic of the Go runtime on
  a length out of range, and a read of native memory past the end of an allocated
  block, which is undefined behaviour in C and in practice a memory fault.
\<close>

datatype fault = GoBytesLengthOutOfRange | NativeBufferOverRead

text \<open>
  The calls into linux-gpib, with the arguments the package passes. The byte list of
  \<open>ibwrt\<close> is the content of the C copy of the caller's slice made by \<open>C.CBytes\<close>.
\<close>

datatype ncall =
    ibdev c_int c_int c_int c_int c_int c_int
  | ibonl c_int c_int
  | ibloc c_int
  | ibwrt c_int "byte list" c_long
  | ibrd c_int c_long

text \<open>What the program does to the outside, in order.\<close>

datatype event = Native ncall | Cancel Context

text \<open>
  The library's answer to one call: the returned status word (or descriptor, for
  \<open>ibdev\<close>), the values it leaves in the globals \<open>iberr\<close>, \<open>ibcnt\<close> and \<open>ibcntl\<close>, and,
  for \<open>ibrd\<close>, the content it leaves in the native buffer it was given: \<open>mem i\<close> is
  byte \<open>i\<close> of that buffer, read only below the buffer's length.
\<close>

record reply =
  rv :: c_int
  set_iberr :: c_int
  set_ibcnt :: c_int
  set_ibcntl :: c_long
  mem :: "nat \<Rightarrow> byte"

text \<open>
  The state outside the device: the library's globals, the number of contexts made so
  far, and the trace of events.
\<close>

record world =
  iberr :: c_int
  ibcnt :: c_int
  ibcntl :: c_long
  ctxs :: nat
  trace :: "event list"

text \<open>
  The library is a parameter: any function from the call and the state in which it is
  made to an answer.
\<close>

type_synonym library = "ncall \<Rightarrow> world \<Rightarrow> reply"

definition native :: "library \<Rightarrow> ncall \<Rightarrow> world \<Rightarrow> reply \<times> world" where
  "native L c w =
     (let r = L c w
      in (r, w\<lparr>iberr := set_iberr r, ibcnt := set_ibcnt r, ibcntl := set_ibcntl r,
               trace := trace w @ [Native c]\<rparr>))"

text \<open>\<open>context.WithCancel(parent)\<close>: a new child and the function that cancels it.\<close>

definition WithCancel :: "Context \<Rightarrow> world \<Rightarrow> Context \<times> CancelFunc \<times> world" where
  "WithCancel parent w =
     (let c = CancelCtx (ctxs w) parent
      in (c, CancelFunc c, w\<lparr>ctxs := Suc (ctxs w)\<rparr>))"

text \<open>Calling a \<open>CancelFunc\<close>.\<close>

fun call_cancel :: "CancelFunc \<Rightarrow> world \<Rightarrow> world" where
  "call_cancel (CancelFunc c) w = w\<lparr>trace := trace w @ [Cancel c]\<rparr>"

section \<open>Status decoding\<close>

text \<open>\<open>status(rv)\<close>: a C \<open>int\<close> converted to the Go type \<open>status\<close>, an \<open>int\<close>.\<close>

definition status :: "c_int \<Rightarrow> go_int" where
  "status r = scast r"

definition getiberr :: "world \<Rightarrow> error" where
  "getiberr w =
     (if iberr w = 0 then Errno (scast (ibcnt w))
      else if iberr w = 1 then
        Errorf ''gpib: interface board needs to be controller-in-charge, but is not''
      else if iberr w = 2 then
        Errorf ''gpib: attempted to write data or command bytes, but there are no listeners currently addressed''
      else if iberr w = 3 then
        Errorf ''gpib: interface board has failed to address itself properly before starting an io operation''
      else if iberr w = 4 then
        Errorf ''gpib: arguments to the function call were invalid''
      else if iberr w = 5 then
        Errorf ''gpib: interface board needs to be system controller, but is not''
      else if iberr w = 6 then
        Errorf ''gpib: read or write of data bytes has been aborted''
      else if iberr w = 7 then
        Errorf ''gpib: interface board does not exist''
      else if iberr w = 10 then
        Errorf ''gpib: function call can not proceed due to an asynchronous IO operation''
      else if iberr w = 11 then
        Errorf ''gpib: GPIB board lacks desired capability''
      else if iberr w = 12 then Errno (scast (ibcnt w))
      else if iberr w = 14 then
        Errorf ''gpib: attempt to write command bytes to the bus has timed out''
      else if iberr w = 15 then
        Errorf ''gpib: serial poll status bytes have been lost''
      else if iberr w = 16 then
        Errorf ''gpib: serial poll request service line is stuck on''
      else Errorf ''gpib: unknown error'')"

text \<open>\<open>func (s status) Err() error\<close>\<close>

definition Err :: "go_int \<Rightarrow> world \<Rightarrow> error option" where
  "Err s w = (if s AND 0x8000 = 0x8000 then Some (getiberr w) else None)"

section \<open>Operations on a device\<close>

text \<open>
  A method with a pointer receiver takes the device and returns it, changed or not,
  next to its Go results and the new outside state.
\<close>

definition Close :: "library \<Rightarrow> Device \<Rightarrow> world \<Rightarrow> error option \<times> Device \<times> world" where
  "Close L d w =
     (if closed d then (None, d, w)
      else
        let w1 = call_cancel (cancel d) w;
            (r, w2) = native L (ibonl (descriptor d) 0) w1
        in case Err (status (rv r)) w2 of
             Some err \<Rightarrow> (Some err, d, w2)
           | None \<Rightarrow> (None, d\<lparr>closed := True\<rparr>, w2))"

definition Local :: "library \<Rightarrow> Device \<Rightarrow> world \<Rightarrow> error option \<times> Device \<times> world" where
  "Local L d w =
     (let (r, w1) = native L (ibloc (descriptor d)) w
      in (Err (status (rv r)) w1, d, w1))"

text \<open>
  \<open>Write\<close> hands \<open>ibwrt\<close> a C copy of the caller's slice (\<open>C.CBytes\<close>, released by
  the deferred \<open>C.free\<close>) and its length; the allocation is taken to succeed.
\<close>

definition Write ::
  "library \<Rightarrow> Device \<Rightarrow> byte list \<Rightarrow> world \<Rightarrow> (nat \<times> error option) \<times> Device \<times> world" where
  "Write L d buf w =
     (let (r, w1) = native L (ibwrt (descriptor d) buf (of_nat (length buf))) w
      in case Err (status (rv r)) w1 of
           Some err \<Rightarrow> ((0, Some err), d, w1)
         | None \<Rightarrow> ((length buf, None), d, w1))"

text \<open>
  \<open>C.GoBytes(p, n)\<close>: a fresh slice of the \<open>n\<close> bytes at \<open>p\<close>, where \<open>p\<close> points to
  an allocated block with the given content. The Go runtime panics on a negative \<open>n\<close>;
  otherwise it copies \<open>n\<close> bytes whatever the size of the block, so an \<open>n\<close> above that
  size reads past its end.
\<close>

definition GoBytes :: "byte list \<Rightarrow> c_int \<Rightarrow> fault + byte list" where
  "GoBytes block n =
     (if sint n < 0 then Inl GoBytesLengthOutOfRange
      else if length block < nat (sint n) then Inl NativeBufferOverRead
      else Inr (take (nat (sint n)) block))"

text \<open>Go's built-in \<open>copy(dst, src)\<close>: the number of bytes copied and the new \<open>dst\<close>.\<close>

definition copy :: "byte list \<Rightarrow> byte list \<Rightarrow> nat \<times> byte list" where
  "copy dst src =
     (let i = min (length dst) (length src)
      in (i, take i src @ drop i dst))"

text \<open>
  \<open>Read\<close> returns, next to its Go results (or the fault), the caller's buffer as it is
  afterwards. The native buffer \<open>cbuf\<close> is a block of \<open>len(buf)\<close> bytes from
  \<open>C.malloc\<close>, taken to succeed; after \<open>ibrd\<close> it holds what the library left in it.
\<close>

definition Read ::
  "library \<Rightarrow> Device \<Rightarrow> byte list \<Rightarrow> world
     \<Rightarrow> (fault + nat \<times> error option) \<times> byte list \<times> Device \<times> world" where
  "Read L d buf w =
     (let cbuflen = length buf;
          (r, w1) = native L (ibrd (descriptor d) (of_nat cbuflen)) w;
          cbuf = map (mem r) [0 ..< cbuflen]
      in case Err (status (rv r)) w1 of
           Some err \<Rightarrow> (Inr (0, Some err), buf, d, w1)
         | None \<Rightarrow>
             (let leng = ibcntl w1
              in case GoBytes cbuf (ucast leng) of
                   Inl p \<Rightarrow> (Inl p, buf, d, w1)
                 | Inr bs \<Rightarrow>
                     (let (i, buf') = copy buf bs
                      in (Inr (i, None), buf', d, w1))))"

text \<open>\<open>func Open(board, pad, sad int, opts *Options) (*Device, error)\<close>\<close>

definition Open ::
  "library \<Rightarrow> go_int \<Rightarrow> go_int \<Rightarrow> go_int \<Rightarrow> Options option \<Rightarrow> world
     \<Rightarrow> (Device option \<times> error option) \<times> world" where
  "Open L board pad sad opts w =
     (let (c, cf, w1) = WithCancel (Options_context opts) w;
          (r, w2) = native L (ibdev (ucast board) (ucast pad) (ucast sad) 0 0 0) w1;
          desc = rv r
      in if desc = - 1
         then ((None, Some (Errorf ''gpib: failed to open the specified device'')), w2)
         else ((Some \<lparr>ctx = c, cancel = cf, closed = False, descriptor = desc\<rparr>, None), w2))"

section \<open>The error taxonomy of the specification\<close>

text \<open>
  The table of section 4.1 of the specification, following its words: the kinds of error,
  and the kind it gives to each auxiliary code.
\<close>

datatype ErrorKind =
    SystemCall | NotControllerInCharge | NoListeners | AddressingFailure
  | InvalidArguments | NotSystemController | IOAborted | BoardNotFound
  | AsyncPending | CapabilityMissing | Timeout | StatusBytesLost
  | ServiceRequestStuck | Unknown

definition spec_ErrorKind :: "int \<Rightarrow> ErrorKind" where
  "spec_ErrorKind code =
     (if code = 0 then SystemCall
      else if code = 1 then NotControllerInCharge
      else if code = 2 then NoListeners
      else if code = 3 then AddressingFailure
      else if code = 4 then InvalidArguments
      else if code = 5 then NotSystemController
      else if code = 6 then IOAborted
      else if code = 7 then BoardNotFound
      else if code = 10 then AsyncPending
      else if code = 11 then CapabilityMissing
      else if code = 12 then SystemCall
      else if code = 14 then Timeout
      else if code = 15 then StatusBytesLost
      else if code = 16 then ServiceRequestStuck
      else Unknown)"

text \<open>
  The package has no type of error kinds: it tells the kinds apart by the error value it
  builds. \<open>ErrorKind_of\<close> reads the kind off such a value: an \<open>Errno\<close> is a system-call
  error, a message is the kind whose meaning in the table it words, and any other
  message is of no kind.
\<close>

fun ErrorKind_of :: "error \<Rightarrow> ErrorKind option" where
  "ErrorKind_of (Errno n) = Some SystemCall"
| "ErrorKind_of (Errorf m) =
     (if m = ''gpib: interface board needs to be controller-in-charge, but is not''
        then Some NotControllerInCharge
      else if m = ''gpib: attempted to write data or command bytes, but there are no listeners currently addressed''
        then Some NoListeners
      else if m = ''gpib: interface board has failed to address itself properly before starting an io operation''
        then Some AddressingFailure
      else if m = ''gpib: arguments to the function call were invalid''
        then Some InvalidArguments
      else if m = ''gpib: interface board needs to be system controller, but is not''
        then Some NotSystemController
      else if m = ''gpib: read or write of data bytes has been aborted''
        then Some IOAborted
      else if m = ''gpib: interface board does not exist''
        then Some BoardNotFound
      else if m = ''gpib: function call can not proceed due to an asynchronous IO operation''
        then Some AsyncPending
      else if m = ''gpib: GPIB board lacks desired capability''
        then Some CapabilityMissing
      else if m = ''gpib: attempt to write command bytes to the bus has timed out''
        then Some Timeout
      else if m = ''gpib: serial poll status bytes have been lost''
        then Some StatusBytesLost
      else if m = ''gpib: serial poll request service line is stuck on''
        then Some ServiceRequestStuck
      else if m = ''gpib: unknown error''
        then Some Unknown
      else None)"

section \<open>Sequences of operations\<close>

text \<open>
  A caller's use of one device: any list of calls of its methods, each with the buffer
  it is given. \<open>run\<close> makes the calls in order and keeps every call's result.
\<close>

datatype op = OpClose | OpLocal | OpWrite "byte list" | OpRead "byte list"

datatype result = ResErr "error option" | ResIO "fault + nat \<times> error option"

fun step :: "library \<Rightarrow> op \<Rightarrow> Device \<Rightarrow> world \<Rightarrow> result \<times> Device \<times> world" where
  "step L OpClose d w = (let (e, d', w') = Close L d w in (ResErr e, d', w'))"
| "step L OpLocal d w = (let (e, d', w') = Local L d w in (ResErr e, d', w'))"
| "step L (OpWrite buf) d w = (let (r, d', w') = Write L d buf w in (ResIO (Inr r), d', w'))"
| "step L (OpRead buf) d w = (let (r, buf', d', w') = Read L d buf w in (ResIO r, d', w'))"

fun run ::
  "library \<Rightarrow> op list \<Rightarrow> Device \<Rightarrow> world \<Rightarrow> (op \<times> result) list \<times> Device \<times> world" where
  "run L [] d w = ([], d, w)"
| "run L (x # xs) d w =
     (let (r, d', w') = step L x d w;
          (rs, d'', w'') = run L xs d' w'
      in ((x, r) # rs, d'', w''))"

text \<open>How often the trace has a call of the given cancel function.\<close>

fun cancel_calls :: "CancelFunc \<Rightarrow> world \<Rightarrow> nat" where
  "cancel_calls (CancelFunc c) w = count_list (trace w) (Cancel c)"

text \<open>The calls of \<open>Close\<close> in a run that returned an error.\<close>

definition failed_closes :: "(op \<times> result) list \<Rightarrow> nat" where
  "failed_closes rs = length (filter (\<lambda>(x, r). x = OpClose \<and> r \<noteq> ResErr None) rs)"

section \<open>Example inputs\<close>

text \<open>
  A library that answers every call with the same status word, globals and memory
  (byte \<open>i\<close> of the native buffer is \<open>i\<close>), a device, and an outside state.
\<close>

definition always :: "c_int \<Rightarrow> c_int \<Rightarrow> c_int \<Rightarrow> c_long \<Rightarrow> library" where
  "always s e c l =
     (\<lambda>_ _. \<lparr>rv = s, set_iberr = e, set_ibcnt = c, set_ibcntl = l, mem = (\<lambda>i. of_nat i)\<rparr>)"

text \<open>
  A library whose calls fail with \<open>iberr = 6\<close> while the trace has fewer than \<open>n\<close>
  events, and succeed from then on.
\<close>

definition flaky :: "nat \<Rightarrow> library" where
  "flaky n =
     (\<lambda>c w. if length (trace w) < n then always 0x8000 6 0 0 c w else always 0x100 0 0 0 c w)"

definition dev0 :: Device where
  "dev0 = \<lparr>ctx = CancelCtx 0 Background, cancel = CancelFunc (CancelCtx 0 Background),
           closed = False, descriptor = 16\<rparr>"

definition w0 :: world where
  "w0 = \<lparr>iberr = 0, ibcnt = 0, ibcntl = 0, ctxs = 1, trace = []\<rparr>"

section \<open>Status decoder: success\<close>

lemma and_exp_eq_iff_bit:
  assumes "n < 64"
  shows "(s :: go_int) AND 2 ^ n = 2 ^ n \<longleftrightarrow> bit s n"
proof
  assume "s AND 2 ^ n = 2 ^ n"
  then have "bit (s AND 2 ^ n) n = bit (2 ^ n :: go_int) n" by simp
  with assms show "bit s n" by (simp add: bit_and_iff bit_exp_iff)
next
  assume b: "bit s n"
  show "s AND 2 ^ n = 2 ^ n"
    by (rule bit_eqI) (auto simp add: bit_and_iff bit_exp_iff b)
qed

lemma and_0x8000_iff: "(s :: go_int) AND 0x8000 = 0x8000 \<longleftrightarrow> bit s 15"
  using and_exp_eq_iff_bit [of 15 s] by simp

text \<open>
  C1. For every status word and every auxiliary error code (and byte-count register):
  if bit 15 of the status word is clear, \<open>status.Err\<close> returns nil, whatever the other
  bits of the status word are.
\<close>

theorem Err_bit15_clear:
  "\<not> bit s 15 \<Longrightarrow> Err s w = None"
  by (simp add: Err_def and_0x8000_iff)

theorem Err_bit15_clear_witness:
  "\<not> bit (0x7FFF :: go_int) 15 \<and>
   Err 0x7FFF \<lparr>iberr = 2, ibcnt = 5, ibcntl = 0, ctxs = 0, trace = []\<rparr> = None"
proof -
  have h: "\<not> bit (0x7FFF :: go_int) 15" by simp
  show ?thesis using h Err_bit15_clear [OF h] by simp
qed

section \<open>Status decoder: the error table\<close>

lemma sint_eq_D: "sint (x :: c_int) = k \<Longrightarrow> x = word_of_int k"
proof -
  assume "sint x = k"
  then have "(word_of_int (sint x) :: c_int) = word_of_int k" by simp
  then show ?thesis by simp
qed

lemma ErrorKind_of_getiberr:
  "ErrorKind_of (getiberr w) = Some (spec_ErrorKind (sint (iberr w)))"
  unfolding getiberr_def spec_ErrorKind_def
  by (auto dest!: sint_eq_D)

lemma getiberr_Errno:
  "sint (iberr w) = 0 \<or> sint (iberr w) = 12 \<Longrightarrow> getiberr w = Errno (scast (ibcnt w))"
  by (auto simp add: getiberr_def dest!: sint_eq_D)

text \<open>
  C2. For every status word with bit 15 set, \<open>status.Err\<close> returns the error that
  \<open>getiberr\<close> builds from the globals, and that error is of exactly the kind the table
  of section 4.1 gives to the auxiliary code \<open>iberr\<close>: for the codes 0 and 12 it is the
  \<open>Errno\<close> of the byte-count register \<open>ibcnt\<close>, and for every code the table does not
  list it is the unknown error. The decoder is a total function: no code makes it fail.
\<close>

theorem Err_bit15_set_table:
  "bit s 15 \<Longrightarrow>
     Err s w = Some (getiberr w) \<and>
     ErrorKind_of (getiberr w) = Some (spec_ErrorKind (sint (iberr w))) \<and>
     (sint (iberr w) = 0 \<or> sint (iberr w) = 12 \<longrightarrow> getiberr w = Errno (scast (ibcnt w)))"
  by (simp add: Err_def and_0x8000_iff ErrorKind_of_getiberr getiberr_Errno)

theorem Err_bit15_set_table_witness:
  "bit (0x8000 :: go_int) 15 \<and>
   sint (iberr (w0\<lparr>iberr := 12, ibcnt := 2\<rparr>)) = 12 \<and>
   Err 0x8000 (w0\<lparr>iberr := 12, ibcnt := 2\<rparr>) = Some (Errno 2) \<and>
   ErrorKind_of (Errno 2) = Some SystemCall \<and>
   spec_ErrorKind 12 = SystemCall"
proof -
  have h: "bit (0x8000 :: go_int) 15" by simp
  show ?thesis
    using h Err_bit15_set_table [OF h, of "w0\<lparr>iberr := 12, ibcnt := 2\<rparr>"]
    by (simp add: w0_def getiberr_def spec_ErrorKind_def)
qed

section \<open>Close\<close>

text \<open>
  C3. On a device whose \<open>closed\<close> flag is set, \<open>Close\<close> returns nil, leaves the device
  as it is and leaves the outside state as it is: the trace gets no event, so there is
  no further call of \<open>ibonl\<close> (and none of the cancel function).
\<close>

theorem Close_closed_noop:
  "closed d \<Longrightarrow> Close L d w = (None, d, w)"
  by (simp add: Close_def)

theorem Close_closed_noop_witness:
  "closed (dev0\<lparr>closed := True\<rparr>) \<and>
   Close (always 0x8000 2 0 0) (dev0\<lparr>closed := True\<rparr>) w0 = (None, dev0\<lparr>closed := True\<rparr>, w0)"
proof -
  have h: "closed (dev0\<lparr>closed := True\<rparr>)" by simp
  show ?thesis using h Close_closed_noop [OF h] by simp
qed

lemma Close_open:
  "\<not> closed d \<Longrightarrow>
   Close L d w =
     (let w1 = call_cancel (cancel d) w;
          r = L (ibonl (descriptor d) 0) w1;
          w2 = snd (native L (ibonl (descriptor d) 0) w1);
          e = Err (status (rv r)) w2
      in (e, if e = None then d\<lparr>closed := True\<rparr> else d, w2))"
  by (auto simp add: Close_def native_def Let_def split: option.splits)

text \<open>
  C4. On a device whose \<open>closed\<close> flag is clear, \<open>Close\<close> calls the cancel function and
  then \<open>ibonl\<close>, and returns what the decoder makes of the status word of \<open>ibonl\<close>.
  The flag is set afterwards exactly when that is nil. When it is an error, the device is
  as before, flag clear, and the next \<open>Close\<close> calls \<open>ibonl\<close> on the same descriptor
  again.
\<close>

theorem Close_failure_retry:
  assumes "\<not> closed d" and "Close L d w = (e, d', w')"
  shows "e = Err (status (rv (L (ibonl (descriptor d) 0) (call_cancel (cancel d) w)))) w' \<and>
         trace w' = trace (call_cancel (cancel d) w) @ [Native (ibonl (descriptor d) 0)] \<and>
         (closed d' \<longleftrightarrow> e = None) \<and>
         (e \<noteq> None \<longrightarrow>
            d' = d \<and>
            trace (snd (snd (Close L d' w'))) =
              trace (call_cancel (cancel d) w') @ [Native (ibonl (descriptor d) 0)])"
  using assms
  by (auto simp add: Close_open native_def Let_def split: if_splits)

theorem Close_failure_retry_witness:
  "\<not> closed dev0 \<and>
   Close (always 0x8000 2 0 0) dev0 w0 =
     (Some (Errorf ''gpib: attempted to write data or command bytes, but there are no listeners currently addressed''),
      dev0,
      \<lparr>iberr = 2, ibcnt = 0, ibcntl = 0, ctxs = 1,
       trace = [Cancel (CancelCtx 0 Background), Native (ibonl 16 0)]\<rparr>) \<and>
   trace (snd (snd (Close (always 0x8000 2 0 0) dev0
      \<lparr>iberr = 2, ibcnt = 0, ibcntl = 0, ctxs = 1,
       trace = [Cancel (CancelCtx 0 Background), Native (ibonl 16 0)]\<rparr>))) =
     [Cancel (CancelCtx 0 Background), Native (ibonl 16 0),
      Cancel (CancelCtx 0 Background), Native (ibonl 16 0)]"
proof -
  have h1: "\<not> closed dev0" by (simp add: dev0_def)
  have h2: "Close (always 0x8000 2 0 0) dev0 w0 =
     (Some (Errorf ''gpib: attempted to write data or command bytes, but there are no listeners currently addressed''),
      dev0,
      \<lparr>iberr = 2, ibcnt = 0, ibcntl = 0, ctxs = 1,
       trace = [Cancel (CancelCtx 0 Background), Native (ibonl 16 0)]\<rparr>)"
    by (simp add: Close_def native_def always_def dev0_def w0_def Err_def status_def
        getiberr_def)
  show ?thesis
    using h1 h2 Close_failure_retry [OF h1 h2] by (simp add: dev0_def)
qed

section \<open>Local\<close>

text \<open>
  C9. \<open>Local\<close> makes one native call, \<open>ibloc\<close> on the device's descriptor, returns
  what the decoder makes of its status word, and returns the device with every field
  as it was.
\<close>

theorem Local_decodes_and_preserves:
  "Local L d w = (e, d', w') \<Longrightarrow>
     d' = d \<and>
     e = Err (status (rv (L (ibloc (descriptor d)) w))) w' \<and>
     trace w' = trace w @ [Native (ibloc (descriptor d))]"
  by (auto simp add: Local_def native_def Let_def)

theorem Local_decodes_and_preserves_witness:
  "Local (always 0x8000 14 0 0) dev0 w0 =
     (Some (Errorf ''gpib: attempt to write command bytes to the bus has timed out''),
      dev0,
      \<lparr>iberr = 14, ibcnt = 0, ibcntl = 0, ctxs = 1, trace = [Native (ibloc 16)]\<rparr>) \<and>
   Err (status (rv (always 0x8000 14 0 0 (ibloc (descriptor dev0)) w0)))
     \<lparr>iberr = 14, ibcnt = 0, ibcntl = 0, ctxs = 1, trace = [Native (ibloc 16)]\<rparr> =
     Some (Errorf ''gpib: attempt to write command bytes to the bus has timed out'')"
proof -
  have h: "Local (always 0x8000 14 0 0) dev0 w0 =
     (Some (Errorf ''gpib: attempt to write command bytes to the bus has timed out''),
      dev0,
      \<lparr>iberr = 14, ibcnt = 0, ibcntl = 0, ctxs = 1, trace = [Native (ibloc 16)]\<rparr>)"
    by (simp add: Local_def native_def always_def dev0_def w0_def Err_def status_def
        getiberr_def)
  show ?thesis
    using h Local_decodes_and_preserves [OF h] by simp
qed

section \<open>Write and Read\<close>

text \<open>
  C6. For every buffer, if \<open>Write\<close> returns a nil error, the count it returns is the
  length of the buffer: a count below the length is never returned with a nil error.
\<close>

theorem Write_success_full_count:
  "Write L d buf w = ((n, None), d', w') \<Longrightarrow> n = length buf"
  by (auto simp add: Write_def native_def Let_def split: option.splits)

theorem Write_success_full_count_witness:
  "Write (always 0x100 0 0 3) dev0 [42, 82, 83] w0 =
     ((3, None), dev0,
      \<lparr>iberr = 0, ibcnt = 0, ibcntl = 3, ctxs = 1,
       trace = [Native (ibwrt 16 [42, 82, 83] 3)]\<rparr>) \<and>
   (3 :: nat) = length [42, 82, 83 :: byte]"
proof -
  have h: "Write (always 0x100 0 0 3) dev0 [42, 82, 83] w0 =
     ((3, None), dev0,
      \<lparr>iberr = 0, ibcnt = 0, ibcntl = 3, ctxs = 1,
       trace = [Native (ibwrt 16 [42, 82, 83] 3)]\<rparr>)"
    by (simp add: Write_def native_def always_def dev0_def w0_def Err_def status_def)
  show ?thesis
    using h Write_success_full_count [OF h] by simp
qed

text \<open>
  C10. \<open>Write\<close> and \<open>Read\<close> return the device with every field as it was, whatever
  the outcome, and whenever one of them returns a non-nil error the count it returns
  is 0 (and \<open>Read\<close> leaves the caller's buffer as it was).
\<close>

theorem IO_error_zero_count:
  assumes "Write L d buf w = ((n, e), d', w')"
      and "Read L d rbuf w = (q, rbuf', d'', w'')"
  shows "d' = d \<and> (e \<noteq> None \<longrightarrow> n = 0) \<and>
         d'' = d \<and> (q = Inr (m, Some e') \<longrightarrow> m = 0 \<and> rbuf' = rbuf)"
proof -
  from assms(1) have "d' = d \<and> (e \<noteq> None \<longrightarrow> n = 0)"
    by (auto simp add: Write_def native_def Let_def split: option.splits)
  moreover from assms(2) have "d'' = d \<and> (q = Inr (m, Some e') \<longrightarrow> m = 0 \<and> rbuf' = rbuf)"
    by (auto simp add: Read_def native_def Let_def split: option.splits sum.splits prod.splits)
  ultimately show ?thesis by simp
qed

theorem IO_error_zero_count_witness:
  "Write (always 0x8000 2 0 1) dev0 [42, 82, 83] w0 =
     ((0, Some (Errorf ''gpib: attempted to write data or command bytes, but there are no listeners currently addressed'')),
      dev0,
      \<lparr>iberr = 2, ibcnt = 0, ibcntl = 1, ctxs = 1,
       trace = [Native (ibwrt 16 [42, 82, 83] 3)]\<rparr>) \<and>
   Read (always 0x8000 2 0 1) dev0 [9, 9] w0 =
     (Inr (0, Some (Errorf ''gpib: attempted to write data or command bytes, but there are no listeners currently addressed'')),
      [9, 9], dev0,
      \<lparr>iberr = 2, ibcnt = 0, ibcntl = 1, ctxs = 1, trace = [Native (ibrd 16 2)]\<rparr>)"
proof -
  have h1: "Write (always 0x8000 2 0 1) dev0 [42, 82, 83] w0 =
     ((0, Some (Errorf ''gpib: attempted to write data or command bytes, but there are no listeners currently addressed'')),
      dev0,
      \<lparr>iberr = 2, ibcnt = 0, ibcntl = 1, ctxs = 1,
       trace = [Native (ibwrt 16 [42, 82, 83] 3)]\<rparr>)"
    by (simp add: Write_def native_def always_def dev0_def w0_def Err_def status_def
        getiberr_def)
  have h2: "Read (always 0x8000 2 0 1) dev0 [9, 9] w0 =
     (Inr (0, Some (Errorf ''gpib: attempted to write data or command bytes, but there are no listeners currently addressed'')),
      [9, 9], dev0,
      \<lparr>iberr = 2, ibcnt = 0, ibcntl = 1, ctxs = 1, trace = [Native (ibrd 16 2)]\<rparr>)"
    by (simp add: Read_def native_def always_def dev0_def w0_def Err_def status_def
        getiberr_def)
  show ?thesis
    using h1 h2 IO_error_zero_count [OF h1 h2] by simp
qed

text \<open>
  What \<open>Read\<close> does: after an error status it returns 0 and the error; otherwise it
  narrows \<open>ibcntl\<close> to a C \<open>int\<close> and has \<open>C.GoBytes\<close> read that many bytes from the
  native buffer of \<open>len(buf)\<close> bytes, with no check of the count against that length.
\<close>

lemma ucast_c_long_eq: "(ucast (l :: c_long) :: c_int) = word_of_int (sint l)"
proof -
  have "(ucast l :: c_int) = word_of_int (uint l)" by (rule ucast_eq)
  also have "\<dots> = word_of_int (take_bit 64 (sint l))" by (simp add: uint_sint)
  also have "\<dots> = word_of_int (sint l)"
    by (rule bit_eqI) (auto simp add: bit_simps)
  finally show ?thesis .
qed

lemma sint_ucast_c_long:
  assumes "0 \<le> sint (l :: c_long)" "sint l < 2 ^ 31"
  shows "sint (ucast l :: c_int) = sint l"
proof -
  have "sint (ucast l :: c_int) = signed_take_bit 31 (sint l)"
    by (simp only: ucast_c_long_eq sint_sbintrunc') simp
  also have "\<dots> = sint l"
    using assms by (intro signed_take_bit_int_eq_self) simp_all
  finally show ?thesis .
qed

lemma copy_map_upt:
  "copy buf (map m [0 ..< k]) =
     (min (length buf) k, map m [0 ..< min (length buf) k] @ drop (min (length buf) k) buf)"
  by (simp add: copy_def Let_def take_map min_def)

lemma GoBytes_within_block:
  assumes "0 \<le> sint n" and "nat (sint n) \<le> k"
  shows "GoBytes (map m [0 ..< k]) n = Inr (map m [0 ..< nat (sint n)])"
  using assms by (simp add: GoBytes_def take_map min_def)

text \<open>
  The part of C7 that the code keeps: when the native count is not negative, fits a C
  \<open>int\<close> and is at most \<open>len(buf)\<close>, \<open>Read\<close> returns the native count with a nil
  error, and the caller's buffer holds that many bytes of the native buffer, followed by
  what it held before.
\<close>

lemma Read_count_within_buffer:
  assumes "native L (ibrd (descriptor d) (of_nat (length buf))) w = (r, w1)"
      and "Err (status (rv r)) w1 = None"
      and "0 \<le> sint (ibcntl w1)" and "sint (ibcntl w1) < 2 ^ 31"
      and "nat (sint (ibcntl w1)) \<le> length buf"
  shows "Read L d buf w =
           (Inr (nat (sint (ibcntl w1)), None),
            map (mem r) [0 ..< nat (sint (ibcntl w1))] @ drop (nat (sint (ibcntl w1))) buf,
            d, w1)"
proof -
  have s: "sint (ucast (ibcntl w1) :: c_int) = sint (ibcntl w1)"
    using assms(3,4) by (rule sint_ucast_c_long)
  have g: "GoBytes (map (mem r) [0 ..< length buf]) (ucast (ibcntl w1)) =
             Inr (map (mem r) [0 ..< nat (sint (ibcntl w1))])"
    using GoBytes_within_block [of "ucast (ibcntl w1)" "length buf" "mem r"] assms(3,5)
    by (simp add: s)
  have m: "min (length buf) (nat (sint (ibcntl w1))) = nat (sint (ibcntl w1))"
    using assms(5) by simp
  show ?thesis
    by (simp add: Read_def Let_def assms(1,2) g copy_map_upt m)
qed

lemma Read_count_within_buffer_example:
  "Read (always 0x100 0 0 1) dev0 [9, 9] w0 =
     (Inr (1, None), [0, 9], dev0,
      \<lparr>iberr = 0, ibcnt = 0, ibcntl = 1, ctxs = 1, trace = [Native (ibrd 16 2)]\<rparr>)"
  by (simp add: Read_def native_def always_def dev0_def w0_def Err_def status_def
      GoBytes_def copy_def upt_rec)

text \<open>
  C7. The claim: for every caller buffer and every native byte count, when the status of
  the transfer decodes to success, \<open>Read\<close> copies exactly \<open>min (len buf) count\<close> bytes
  into the caller's buffer and returns that count without error, so for a count above
  \<open>len(buf)\<close> it returns \<open>len(buf)\<close>. The code does not do that: with a buffer of one
  byte, a success status and a native count of \<open>2 ^ 20\<close>, where the claim has \<open>Read\<close>
  return 1, \<open>Read\<close> has \<open>C.GoBytes\<close> read \<open>2 ^ 20\<close> bytes from its native buffer of
  one byte and ends in that fault, with no count returned and the caller's buffer as it
  was.
\<close>

theorem Read_over_read_failing_input:
  "Err (status (rv (always 0x100 0 0 0x100000 (ibrd 16 1) w0)))
     (snd (native (always 0x100 0 0 0x100000) (ibrd 16 1) w0)) = None \<and>
   sint (ibcntl (snd (native (always 0x100 0 0 0x100000) (ibrd 16 1) w0))) = 1048576 \<and>
   min (length [7 :: byte]) (nat 1048576) = 1 \<and>
   Read (always 0x100 0 0 0x100000) dev0 [7] w0 =
     (Inl NativeBufferOverRead, [7], dev0,
      \<lparr>iberr = 0, ibcnt = 0, ibcntl = 1048576, ctxs = 1, trace = [Native (ibrd 16 1)]\<rparr>)"
  by (simp add: Read_def native_def always_def dev0_def w0_def Err_def status_def
      GoBytes_def)

text \<open>
  The narrowing of the count to a C \<open>int\<close> breaks the claim as well: a native count of
  \<open>2 ^ 32\<close> is 0 as a C \<open>int\<close>, and \<open>Read\<close> returns the count 0 for a buffer of one
  byte; a native count of \<open>2 ^ 31\<close> is \<open>- 2 ^ 31\<close>, and \<open>C.GoBytes\<close> panics.
\<close>

lemma Read_narrowed_count_2_32:
  "fst (Read (always 0x100 0 0 0x100000000) dev0 [7] w0) = Inr (0, None)"
  by (simp add: Read_def native_def always_def dev0_def w0_def Err_def status_def
      GoBytes_def copy_def)

lemma Read_panics_at_2_31:
  "fst (Read (always 0x100 0 0 0x80000000) dev0 [7] w0) = Inl GoBytesLengthOutOfRange"
  by (simp add: Read_def native_def always_def dev0_def w0_def Err_def status_def
      GoBytes_def)

section \<open>Open\<close>

lemma getiberr_not_open_error:
  "getiberr w \<noteq> Errorf ''gpib: failed to open the specified device''"
  by (simp add: getiberr_def)

text \<open>
  C8. For every board, primary and secondary address and every options value, \<open>Open\<close>
  derives the lifecycle context from the options' base context, or from the background
  context when the options or their base context are absent, and calls \<open>ibdev\<close>. If
  \<open>ibdev\<close> returns \<open>-1\<close>, \<open>Open\<close> returns no device and the error
  "gpib: failed to open the specified device", an error the status decoder returns for
  no status word and no globals; otherwise it returns a device with \<open>closed = false\<close>,
  the descriptor \<open>ibdev\<close> returned, and the new context and its cancel function.
\<close>

theorem Open_result:
  assumes "Open L board pad sad opts w = (res, w')"
      and "r = L (ibdev (ucast board) (ucast pad) (ucast sad) 0 0 0) (w\<lparr>ctxs := Suc (ctxs w)\<rparr>)"
      and "c = CancelCtx (ctxs w) (Options_context opts)"
  shows "(opts = None \<or> BaseContext (the opts) = None \<longrightarrow> Options_context opts = Background) \<and>
         (rv r = - 1 \<longrightarrow>
            res = (None, Some (Errorf ''gpib: failed to open the specified device'')) \<and>
            Err s u \<noteq> Some (Errorf ''gpib: failed to open the specified device'')) \<and>
         (rv r \<noteq> - 1 \<longrightarrow>
            res = (Some \<lparr>ctx = c, cancel = CancelFunc c, closed = False, descriptor = rv r\<rparr>, None))"
proof -
  have a: "opts = None \<or> BaseContext (the opts) = None \<longrightarrow> Options_context opts = Background"
    by (auto simp add: Options_context_def split: option.splits)
  have b: "Err s u \<noteq> Some (Errorf ''gpib: failed to open the specified device'')"
    by (simp add: Err_def getiberr_not_open_error)
  from assms have
    "res = (if rv r = - 1
            then (None, Some (Errorf ''gpib: failed to open the specified device''))
            else (Some \<lparr>ctx = c, cancel = CancelFunc c, closed = False, descriptor = rv r\<rparr>, None))"
    by (auto simp add: Open_def WithCancel_def native_def Let_def split: if_splits)
  with a b show ?thesis by simp
qed

theorem Open_result_witness:
  "Open (always (- 1) 0 0 0) 0 13 0 None w0 =
     ((None, Some (Errorf ''gpib: failed to open the specified device'')),
      \<lparr>iberr = 0, ibcnt = 0, ibcntl = 0, ctxs = 2, trace = [Native (ibdev 0 13 0 0 0 0)]\<rparr>) \<and>
   Open (always 16 0 0 0) 0 13 0 None w0 =
     ((Some \<lparr>ctx = CancelCtx 1 Background, cancel = CancelFunc (CancelCtx 1 Background),
             closed = False, descriptor = 16\<rparr>, None),
      \<lparr>iberr = 0, ibcnt = 0, ibcntl = 0, ctxs = 2, trace = [Native (ibdev 0 13 0 0 0 0)]\<rparr>) \<and>
   Options_context None = Background \<and>
   Err 0x8000 w0 \<noteq> Some (Errorf ''gpib: failed to open the specified device'')"
proof -
  let ?w = "\<lparr>iberr = 0, ibcnt = 0, ibcntl = 0, ctxs = 2, trace = [Native (ibdev 0 13 0 0 0 0)]\<rparr>"
  have h1: "Open (always (- 1) 0 0 0) 0 13 0 None w0 =
     ((None, Some (Errorf ''gpib: failed to open the specified device'')), ?w)"
    by (simp add: Open_def WithCancel_def native_def always_def w0_def Options_context_def
        Let_def)
  have h2: "Open (always 16 0 0 0) 0 13 0 None w0 =
     ((Some \<lparr>ctx = CancelCtx 1 Background, cancel = CancelFunc (CancelCtx 1 Background),
             closed = False, descriptor = 16\<rparr>, None), ?w)"
    by (simp add: Open_def WithCancel_def native_def always_def w0_def Options_context_def
        Let_def)
  show ?thesis
    using h1 h2 Open_result [OF h1 refl refl, of "0x8000" w0] Open_result [OF h2 refl refl, of 0 w0]
    by simp
qed

section \<open>The cancel function over sequences of operations\<close>

text \<open>
  C5, as the claim states it, fails: when the native release fails and \<open>Close\<close> is
  called again, the cancel function is called by each of the two calls of \<open>Close\<close>.
\<close>

theorem cancel_once_counterexample:
  "fst (run (always 0x8000 2 0 0) [OpClose, OpClose] dev0 w0) =
     [(OpClose, ResErr (Some (Errorf ''gpib: attempted to write data or command bytes, but there are no listeners currently addressed''))),
      (OpClose, ResErr (Some (Errorf ''gpib: attempted to write data or command bytes, but there are no listeners currently addressed'')))] \<and>
   cancel_calls (cancel dev0) w0 = 0 \<and>
   cancel_calls (cancel dev0) (snd (snd (run (always 0x8000 2 0 0) [OpClose, OpClose] dev0 w0))) = 2"
  by (simp add: Close_def native_def always_def dev0_def w0_def Err_def status_def
      getiberr_def)

lemma cancel_calls_native:
  "cancel_calls f (snd (native L c w)) = cancel_calls f w"
  by (cases f) (simp add: native_def Let_def)

lemma cancel_calls_call_cancel:
  "cancel_calls f (call_cancel f w) = Suc (cancel_calls f w)"
  by (cases f) simp

lemma Close_cancel_calls:
  assumes "Close L d w = (e, d', w')"
  shows "cancel d' = cancel d"
    and "cancel_calls (cancel d) w' = cancel_calls (cancel d) w + (if closed d then 0 else 1)"
    and "closed d' \<longleftrightarrow> closed d \<or> e = None"
    and "closed d \<longrightarrow> e = None"
proof -
  show "closed d \<longrightarrow> e = None"
    using assms by (auto simp add: Close_def)
  show "cancel d' = cancel d"
  proof (cases "closed d")
    case True
    with assms show ?thesis by (simp add: Close_def)
  next
    case False
    from assms show ?thesis
      unfolding Close_open [OF False] by (auto simp add: Let_def split: if_splits)
  qed
  show "cancel_calls (cancel d) w' = cancel_calls (cancel d) w + (if closed d then 0 else 1)"
  proof (cases "closed d")
    case True
    with assms show ?thesis by (simp add: Close_def)
  next
    case False
    from assms have "w' = snd (native L (ibonl (descriptor d) 0) (call_cancel (cancel d) w))"
      unfolding Close_open [OF False] by (simp add: Let_def)
    then show ?thesis
      using False by (simp add: cancel_calls_native cancel_calls_call_cancel)
  qed
  show "closed d' \<longleftrightarrow> closed d \<or> e = None"
  proof (cases "closed d")
    case True
    with assms show ?thesis by (simp add: Close_def)
  next
    case False
    from assms show ?thesis
      unfolding Close_open [OF False] using False by (auto simp add: Let_def split: if_splits)
  qed
qed

lemma other_ops_cancel_calls:
  "Local L d w = (e, d', w') \<Longrightarrow> d' = d \<and> cancel_calls f w' = cancel_calls f w"
  "Write L d buf w = (p, d', w') \<Longrightarrow> d' = d \<and> cancel_calls f w' = cancel_calls f w"
  "Read L d buf w = (q, buf', d', w') \<Longrightarrow> d' = d \<and> cancel_calls f w' = cancel_calls f w"
proof -
  have n: "\<And>c r w1. native L c w = (r, w1) \<Longrightarrow> cancel_calls f w1 = cancel_calls f w"
    using cancel_calls_native [of f L _ w] by (metis snd_conv)
  show "Local L d w = (e, d', w') \<Longrightarrow> d' = d \<and> cancel_calls f w' = cancel_calls f w"
    by (auto simp add: Local_def split: prod.splits dest: n)
  show "Write L d buf w = (p, d', w') \<Longrightarrow> d' = d \<and> cancel_calls f w' = cancel_calls f w"
    by (auto simp add: Write_def split: prod.splits option.splits dest: n)
  show "Read L d buf w = (q, buf', d', w') \<Longrightarrow> d' = d \<and> cancel_calls f w' = cancel_calls f w"
    by (auto simp add: Read_def Let_def split: prod.splits option.splits sum.splits dest: n)
qed

lemma step_cancel_calls:
  assumes "step L x d w = (r, d', w')"
  shows "cancel d' = cancel d \<and>
         cancel_calls (cancel d) w' =
           cancel_calls (cancel d) w + (if x = OpClose \<and> \<not> closed d then 1 else 0) \<and>
         (closed d' \<longleftrightarrow> closed d \<or> (x = OpClose \<and> r = ResErr None)) \<and>
         (x = OpClose \<and> closed d \<longrightarrow> r = ResErr None)"
proof (cases x)
  case OpClose
  with assms obtain e where c: "Close L d w = (e, d', w')" and r: "r = ResErr e"
    by (auto split: prod.splits)
  show ?thesis
    using Close_cancel_calls [OF c] OpClose r by auto
next
  case OpLocal
  with assms obtain e where c: "Local L d w = (e, d', w')" and r: "r = ResErr e"
    by (auto split: prod.splits)
  show ?thesis
    using other_ops_cancel_calls(1) [OF c] OpLocal by simp
next
  case (OpWrite buf)
  with assms obtain p where c: "Write L d buf w = (p, d', w')"
    by (auto split: prod.splits)
  show ?thesis
    using other_ops_cancel_calls(2) [OF c] OpWrite by simp
next
  case (OpRead buf)
  with assms obtain q buf' where c: "Read L d buf w = (q, buf', d', w')"
    by (auto split: prod.splits)
  show ?thesis
    using other_ops_cancel_calls(3) [OF c] OpRead by simp
qed

lemma failed_closes_Cons:
  "failed_closes ((x, r) # rs) =
     (if x = OpClose \<and> r \<noteq> ResErr None then 1 else 0) + failed_closes rs"
  by (simp add: failed_closes_def)

lemma run_cancel_calls:
  "run L ops d w = (rs, d', w') \<Longrightarrow>
     cancel d' = cancel d \<and>
     cancel_calls (cancel d) w' =
       cancel_calls (cancel d) w + failed_closes rs + (if closed d' \<and> \<not> closed d then 1 else 0) \<and>
     (closed d \<longrightarrow> closed d' \<and> failed_closes rs = 0) \<and>
     (closed d' \<and> \<not> closed d \<longrightarrow> (OpClose, ResErr None) \<in> set rs) \<and>
     map fst rs = ops"
proof (induction ops arbitrary: d w rs d' w')
  case Nil
  then show ?case by (simp add: failed_closes_def)
next
  case (Cons x xs)
  obtain r d1 w1 where s: "step L x d w = (r, d1, w1)"
    by (cases "step L x d w") auto
  obtain rs1 d2 w2 where t: "run L xs d1 w1 = (rs1, d2, w2)"
    by (cases "run L xs d1 w1") auto
  from Cons.prems s t have e: "rs = (x, r) # rs1" "d' = d2" "w' = w2"
    by simp_all
  from step_cancel_calls [OF s] have
    c1: "cancel d1 = cancel d" and
    n1: "cancel_calls (cancel d) w1 =
           cancel_calls (cancel d) w + (if x = OpClose \<and> \<not> closed d then 1 else 0)" and
    k1: "closed d1 \<longleftrightarrow> closed d \<or> (x = OpClose \<and> r = ResErr None)" and
    e1: "x = OpClose \<and> closed d \<longrightarrow> r = ResErr None"
    by blast+
  from Cons.IH [OF t] have
    c2: "cancel d2 = cancel d1" and
    n2: "cancel_calls (cancel d) w2 =
           cancel_calls (cancel d) w1 + failed_closes rs1 +
           (if closed d2 \<and> \<not> closed d1 then 1 else 0)" and
    m2: "closed d1 \<longrightarrow> closed d2 \<and> failed_closes rs1 = 0" and
    s2: "closed d2 \<and> \<not> closed d1 \<longrightarrow> (OpClose, ResErr None) \<in> set rs1" and
    f2: "map fst rs1 = xs"
    unfolding c1 by blast+
  have g1: "cancel d2 = cancel d" using c1 c2 by simp
  have g3: "closed d \<longrightarrow> closed d2 \<and> failed_closes ((x, r) # rs1) = 0"
    using k1 e1 m2 by (auto simp add: failed_closes_Cons)
  have g4: "closed d2 \<and> \<not> closed d \<longrightarrow> (OpClose, ResErr None) \<in> set ((x, r) # rs1)"
    using k1 s2 by auto
  have g5: "map fst ((x, r) # rs1) = x # xs" using f2 by simp
  have g2: "cancel_calls (cancel d) w2 =
              cancel_calls (cancel d) w + failed_closes ((x, r) # rs1) +
              (if closed d2 \<and> \<not> closed d then 1 else 0)"
  proof (cases "closed d")
    case True
    with k1 m2 e1 n1 n2 show ?thesis by (simp add: failed_closes_Cons)
  next
    case nd: False
    show ?thesis
    proof (cases "x = OpClose \<and> r = ResErr None")
      case True
      with nd k1 m2 n1 n2 show ?thesis by (simp add: failed_closes_Cons)
    next
      case False
      with nd k1 have "\<not> closed d1" by simp
      with nd False n1 n2 show ?thesis by (simp add: failed_closes_Cons)
    qed
  qed
  show ?case
    unfolding e using g1 g2 g3 g4 g5 by blast
qed

text \<open>
  C5, amended. Over every sequence of operations on a device, the cancel function of its
  lifecycle context is called only by \<open>Close\<close>, once by every call of \<open>Close\<close> that finds
  \<open>closed\<close> clear: the number of its calls grows by the number of calls of \<open>Close\<close>
  that returned an error, plus one if the device went from open to closed, which only a
  successful \<open>Close\<close> in the sequence does. It is not called on a device that is closed
  already, nor by a sequence without \<open>Close\<close>.
\<close>

theorem cancel_only_in_Close:
  assumes "run L ops d w = (rs, d', w')"
  shows "cancel_calls (cancel d) w' =
           cancel_calls (cancel d) w + failed_closes rs +
           (if closed d' \<and> \<not> closed d then 1 else 0) \<and>
         (closed d' \<and> \<not> closed d \<longrightarrow> (OpClose, ResErr None) \<in> set rs) \<and>
         (closed d \<longrightarrow> cancel_calls (cancel d) w' = cancel_calls (cancel d) w) \<and>
         (OpClose \<notin> set ops \<longrightarrow> cancel_calls (cancel d) w' = cancel_calls (cancel d) w)"
proof -
  note R = run_cancel_calls [OF assms]
  from R have
    n: "cancel_calls (cancel d) w' =
          cancel_calls (cancel d) w + failed_closes rs +
          (if closed d' \<and> \<not> closed d then 1 else 0)" and
    s: "closed d' \<and> \<not> closed d \<longrightarrow> (OpClose, ResErr None) \<in> set rs" and
    m: "closed d \<longrightarrow> closed d' \<and> failed_closes rs = 0" and
    f: "map fst rs = ops"
    by blast+
  have a: "closed d \<longrightarrow> cancel_calls (cancel d) w' = cancel_calls (cancel d) w"
    using n m by simp
  have b: "OpClose \<notin> set ops \<longrightarrow> cancel_calls (cancel d) w' = cancel_calls (cancel d) w"
  proof
    assume no: "OpClose \<notin> set ops"
    have in_ops: "\<And>x r. (x, r) \<in> set rs \<Longrightarrow> x \<in> set ops"
      using f by force
    from no in_ops have z: "failed_closes rs = 0"
      by (auto simp add: failed_closes_def filter_empty_conv)
    from no in_ops s have "\<not> (closed d' \<and> \<not> closed d)" by blast
    with n z show "cancel_calls (cancel d) w' = cancel_calls (cancel d) w" by simp
  qed
  from n s a b show ?thesis by blast
qed

theorem cancel_only_in_Close_witness:
  "run (flaky 3) [OpWrite [1], OpClose, OpClose, OpClose] dev0 w0 =
     ([(OpWrite [1], ResIO (Inr (0, Some (Errorf ''gpib: read or write of data bytes has been aborted'')))),
       (OpClose, ResErr (Some (Errorf ''gpib: read or write of data bytes has been aborted''))),
       (OpClose, ResErr None),
       (OpClose, ResErr None)],
      dev0\<lparr>closed := True\<rparr>,
      \<lparr>iberr = 0, ibcnt = 0, ibcntl = 0, ctxs = 1,
       trace = [Native (ibwrt 16 [1] 1),
                Cancel (CancelCtx 0 Background), Native (ibonl 16 0),
                Cancel (CancelCtx 0 Background), Native (ibonl 16 0)]\<rparr>) \<and>
   cancel_calls (cancel dev0)
     \<lparr>iberr = 0, ibcnt = 0, ibcntl = 0, ctxs = 1,
      trace = [Native (ibwrt 16 [1] 1),
               Cancel (CancelCtx 0 Background), Native (ibonl 16 0),
               Cancel (CancelCtx 0 Background), Native (ibonl 16 0)]\<rparr> = 2 \<and>
   run (flaky 3) [OpClose, OpLocal] (dev0\<lparr>closed := True\<rparr>) w0 =
     ([(OpClose, ResErr None),
       (OpLocal, ResErr (Some (Errorf ''gpib: read or write of data bytes has been aborted'')))],
      dev0\<lparr>closed := True\<rparr>,
      \<lparr>iberr = 6, ibcnt = 0, ibcntl = 0, ctxs = 1, trace = [Native (ibloc 16)]\<rparr>) \<and>
   cancel_calls (cancel dev0)
     \<lparr>iberr = 6, ibcnt = 0, ibcntl = 0, ctxs = 1, trace = [Native (ibloc 16)]\<rparr> = 0 \<and>
   OpClose \<notin> set [OpLocal] \<and>
   run (flaky 3) [OpLocal] dev0 w0 =
     ([(OpLocal, ResErr (Some (Errorf ''gpib: read or write of data bytes has been aborted'')))],
      dev0,
      \<lparr>iberr = 6, ibcnt = 0, ibcntl = 0, ctxs = 1, trace = [Native (ibloc 16)]\<rparr>)"
proof -
  have h1: "run (flaky 3) [OpWrite [1], OpClose, OpClose, OpClose] dev0 w0 =
     ([(OpWrite [1], ResIO (Inr (0, Some (Errorf ''gpib: read or write of data bytes has been aborted'')))),
       (OpClose, ResErr (Some (Errorf ''gpib: read or write of data bytes has been aborted''))),
       (OpClose, ResErr None),
       (OpClose, ResErr None)],
      dev0\<lparr>closed := True\<rparr>,
      \<lparr>iberr = 0, ibcnt = 0, ibcntl = 0, ctxs = 1,
       trace = [Native (ibwrt 16 [1] 1),
                Cancel (CancelCtx 0 Background), Native (ibonl 16 0),
                Cancel (CancelCtx 0 Background), Native (ibonl 16 0)]\<rparr>)"
    by (simp add: Write_def Close_def native_def flaky_def always_def dev0_def w0_def
        Err_def status_def getiberr_def)
  have h2: "run (flaky 3) [OpClose, OpLocal] (dev0\<lparr>closed := True\<rparr>) w0 =
     ([(OpClose, ResErr None),
       (OpLocal, ResErr (Some (Errorf ''gpib: read or write of data bytes has been aborted'')))],
      dev0\<lparr>closed := True\<rparr>,
      \<lparr>iberr = 6, ibcnt = 0, ibcntl = 0, ctxs = 1, trace = [Native (ibloc 16)]\<rparr>)"
    by (simp add: Local_def Close_def native_def flaky_def always_def dev0_def w0_def
        Err_def status_def getiberr_def)
  have h3: "run (flaky 3) [OpLocal] dev0 w0 =
     ([(OpLocal, ResErr (Some (Errorf ''gpib: read or write of data bytes has been aborted'')))],
      dev0,
      \<lparr>iberr = 6, ibcnt = 0, ibcntl = 0, ctxs = 1, trace = [Native (ibloc 16)]\<rparr>)"
    by (simp add: Local_def native_def flaky_def always_def dev0_def w0_def
        Err_def status_def getiberr_def)
  show ?thesis
    using h1 h2 h3 cancel_only_in_Close [OF h1] cancel_only_in_Close [OF h2]
      cancel_only_in_Close [OF h3]
    by (simp add: dev0_def w0_def failed_closes_def)
qed

end
